theory Spec2Isabelle
  imports Complex_Main "HOL-Library.Multiset"
begin

section \<open>Python values and exceptions\<close>

text \<open>
  The repository is a set of notebooks and one deployment configuration. The code it
  contains of its own is Python: the cluster option handler embedded in the
  dask-gateway configuration, and the notebook cell that assembles the GOES imagery
  into one labelled array. Exceptions are values of \<open>py_error\<close>; a computation that may
  raise returns \<open>py_error + 'a\<close>, with \<open>Inl\<close> for the exception.
\<close>

datatype py_error =
    ValueError string
  | IndexError
  | KeyError string
  | RasterioIOError string

text \<open>A Python \<open>dict\<close> with string keys, in insertion order.\<close>

type_synonym 'v dict = "(string \<times> 'v) list"

datatype py_value =
    PyFloat real
  | PyStr string
  | PyMapping "string dict"

section \<open>Floating-point arithmetic and \<open>%f\<close> formatting\<close>

text \<open>
  Python's \<open>float\<close> is IEEE 754 binary64. A float is modelled by the real number it
  denotes, and every arithmetic operation and every decimal literal rounds its exact
  result with the rounding function \<open>rd\<close>, which the model takes as a parameter.
  \<open>binary64_rounding rd\<close> is the accuracy of round-to-nearest on the magnitudes the
  option handler works with: a relative error of at most \<open>2 ^ 53\<close>-th. Exact real
  arithmetic is the instance \<open>rd = (\<lambda>x. x)\<close>.
\<close>

definition binary64_rounding :: "(real \<Rightarrow> real) \<Rightarrow> bool" where
  "binary64_rounding rd \<longleftrightarrow> (\<forall>x. 1 / 4 \<le> x \<and> x \<le> 256 \<longrightarrow> \<bar>rd x - x\<bar> \<le> x / 2 ^ 53)"

definition float_mul :: "(real \<Rightarrow> real) \<Rightarrow> real \<Rightarrow> real \<Rightarrow> real" where
  "float_mul rd a b = rd (a * b)"

text \<open>The divisor is the literal \<open>2\<close> at the only call, so no \<open>ZeroDivisionError\<close>.\<close>

definition float_div :: "(real \<Rightarrow> real) \<Rightarrow> real \<Rightarrow> real \<Rightarrow> real" where
  "float_div rd a b = rd (a / b)"

text \<open>Python's \<open>min(a, b)\<close> returns \<open>a\<close> unless \<open>b < a\<close>.\<close>

definition py_min :: "real \<Rightarrow> real \<Rightarrow> real" where
  "py_min a b = (if b < a then b else a)"

definition digit_char :: "nat \<Rightarrow> char" where
  "digit_char d = ''0123456789'' ! d"

fun show_nat :: "nat \<Rightarrow> string" where
  "show_nat n =
     (if n < 10 then [digit_char n] else show_nat (n div 10) @ [digit_char (n mod 10)])"

declare show_nat.simps [simp del]

text \<open>Rounding to the nearest integer, a tie going to the even neighbour.\<close>

definition round_half_even :: "real \<Rightarrow> int" where
  "round_half_even x =
     (let n = \<lfloor>x\<rfloor>; d = x - of_int n
      in if d < 1 / 2 then n else if 1 / 2 < d then n + 1 else if even n then n else n + 1)"

text \<open>
  \<open>"%f" % x\<close>: the value rounded to six decimal places, printed as sign, integer
  part, point and exactly six fraction digits. \<open>micros x\<close> is the printed amount in
  millionths.
\<close>

definition micros :: "real \<Rightarrow> nat" where
  "micros x = nat (round_half_even (\<bar>x\<bar> * 10 ^ 6))"

definition frac6 :: "nat \<Rightarrow> string" where
  "frac6 m = map (\<lambda>k. digit_char (m div 10 ^ k mod 10)) [5, 4, 3, 2, 1, 0]"

definition percent_f :: "real \<Rightarrow> string" where
  "percent_f x =
     (if x < 0 then ''-'' else '''')
       @ show_nat (micros x div 10 ^ 6) @ ''.'' @ frac6 (micros x mod 10 ^ 6)"

section \<open>The cluster option handler\<close>

text \<open>
  From the dask-gateway configuration (\<open>01-optionHandler\<close>):
  \<^verbatim>\<open>
  def option_handler(options):
      if ":" not in options.image:
          raise ValueError("When specifying an image you must also provide a tag")
      return {
          "worker_cores": 0.88 * min(options.worker_cores / 2, 1),
          "worker_cores_limit": options.worker_cores,
          "worker_memory": "%fG" % (0.9 * options.worker_memory),
          "worker_memory_limit": "%fG" % options.worker_memory,
          "image": options.image,
          "environment": options.environment,
      }
  \<close>
  The options object is declared with \<open>Float("worker_cores", 1, min=1, max=16)\<close>,
  \<open>Float("worker_memory", 8, min=8, max=128)\<close>, a \<open>String\<close> image and a \<open>Mapping\<close>
  environment. The field \<open>image\<close> is named \<open>image_str\<close> here.
\<close>

record options =
  worker_cores :: real
  worker_memory :: real
  image_str :: string
  environment :: "string dict"

text \<open>The defaults declared with the options: one core, 8 GiB, the Pangeo notebook image.\<close>

definition default_options :: options where
  "default_options =
     \<lparr>worker_cores = 1, worker_memory = 8,
      image_str = ''pangeo/pangeo-notebook:latest'', environment = []\<rparr>"

text \<open>
  \<open>":" not in options.image\<close> is a substring test; for a needle of one character it is
  membership of that character in the string.
\<close>

definition option_handler :: "(real \<Rightarrow> real) \<Rightarrow> options \<Rightarrow> py_error + py_value dict" where
  "option_handler rd options =
     (if CHR '':'' \<notin> set (image_str options)
      then Inl (ValueError ''When specifying an image you must also provide a tag'')
      else Inr
        [(''worker_cores'',
            PyFloat (float_mul rd (rd (88 / 100)) (py_min (float_div rd (worker_cores options) 2) 1))),
         (''worker_cores_limit'', PyFloat (worker_cores options)),
         (''worker_memory'',
            PyStr (percent_f (float_mul rd (rd (9 / 10)) (worker_memory options)) @ ''G'')),
         (''worker_memory_limit'', PyStr (percent_f (worker_memory options) @ ''G'')),
         (''image'', PyStr (image_str options)),
         (''environment'', PyMapping (environment options))])"

section \<open>The GOES time stack of the hurricane notebook\<close>

text \<open>
  The notebook assembles the GOES scenes found by the catalogue search into one array
  with the dimensions time and band:
  \<^verbatim>\<open>
  items = search.get_all_items()
  signed_items = sorted(
      [planetary_computer.sign(item) for item in items], key=lambda x: x.datetime
  )
  bands = ["C01_2km", "C02_2km", "C03_2km"]
  common_names = [
      items[0].assets[band].extra_fields["eo:bands"][0]["common_name"] for band in bands
  ]
  time = xr.DataArray(
      pd.to_datetime([x.datetime for x in signed_items]).tz_localize(None),
      name="time", dims=["time"],
  )
  arrays = [
      xr.concat(
          [rioxarray.open_rasterio(item.assets[band].href) for band in bands], dim="band"
      ).assign_coords(band=common_names)
      for item in signed_items
  ]
  data = xr.concat(arrays, dim=time).rename("goes")
  \<close>
  An item carries its acquisition time and a dict of assets; an asset carries its
  \<open>href\<close> and its \<open>extra_fields\<close>, of which the cell reads the list of band
  descriptions under \<open>"eo:bands"\<close>. A timestamp is an integer (an instant on the UTC
  time line), so \<open>pd.to_datetime(...).tz_localize(None)\<close>, which drops the time zone
  label, leaves it as it is. The keys of a dict are distinct.
\<close>

record asset =
  href :: string
  extra_fields :: "string dict list dict"

record item =
  datetime :: int
  assets :: "asset dict"

text \<open>Sequencing of computations that may raise: the first exception ends the run.\<close>

definition and_then :: "'e + 'a \<Rightarrow> ('a \<Rightarrow> 'e + 'b) \<Rightarrow> 'e + 'b" where
  "and_then r f = (case r of Inl e \<Rightarrow> Inl e | Inr x \<Rightarrow> f x)"

text \<open>A list comprehension whose element expression may raise, evaluated left to right.\<close>

fun map_result :: "('a \<Rightarrow> 'e + 'b) \<Rightarrow> 'a list \<Rightarrow> 'e + 'b list" where
  "map_result f [] = Inr []"
| "map_result f (x # xs) =
     and_then (f x) (\<lambda>y. and_then (map_result f xs) (\<lambda>ys. Inr (y # ys)))"

text \<open>\<open>d[k]\<close> on a dict and \<open>xs[0]\<close> on a list.\<close>

definition getitem :: "'v dict \<Rightarrow> string \<Rightarrow> py_error + 'v" where
  "getitem d k = (case map_of d k of None \<Rightarrow> Inl (KeyError k) | Some v \<Rightarrow> Inr v)"

definition first :: "'a list \<Rightarrow> py_error + 'a" where
  "first xs = (case xs of [] \<Rightarrow> Inl IndexError | x # _ \<Rightarrow> Inr x)"

text \<open>
  Python's \<open>sorted(xs, key=f)\<close> is a stable sort by the key: elements with equal keys keep
  their order, and none is dropped.
\<close>

definition py_sorted :: "('a \<Rightarrow> 'k::linorder) \<Rightarrow> 'a list \<Rightarrow> 'a list" where
  "py_sorted key xs = sort_key key xs"

text \<open>
  \<open>planetary_computer.sign\<close> and \<open>rioxarray.open_rasterio\<close> are library calls with
  effects outside the program (a token request, opening a remote file); the model takes
  them as the parameters \<open>sign\<close> and \<open>open_rasterio\<close>, the second returning an opaque
  single-band raster or an exception.
\<close>

definition signed_items :: "(item \<Rightarrow> item) \<Rightarrow> item list \<Rightarrow> item list" where
  "signed_items sign items = py_sorted datetime (map sign items)"

definition common_name :: "item list \<Rightarrow> string \<Rightarrow> py_error + string" where
  "common_name items band =
     and_then (first items) (\<lambda>i.
     and_then (getitem (assets i) band) (\<lambda>a.
     and_then (getitem (extra_fields a) ''eo:bands'') (\<lambda>bs.
     and_then (first bs) (\<lambda>b.
     getitem b ''common_name''))))"

definition common_names :: "item list \<Rightarrow> string list \<Rightarrow> py_error + string list" where
  "common_names items bands = map_result (common_name items) bands"

definition time_coord :: "item list \<Rightarrow> int list" where
  "time_coord signed = map datetime signed"

text \<open>
  The labelled arrays. \<open>xr.concat(objs, dim)\<close> stacks its arguments along \<open>dim\<close> in the
  order given and raises \<open>ValueError\<close> on an empty sequence;
  \<open>assign_coords(band=names)\<close> labels the band dimension and raises \<open>ValueError\<close> when
  the number of labels is not the size of the dimension. Only their effect on the
  coordinate labels and on the arrangement of the rasters is modelled.
\<close>

record 'r band_stack =
  band_coord :: "string list"
  rasters :: "'r list"

record 'r goes_array =
  time_axis :: "int list"
  band_axis :: "string list"
  tiles :: "'r list list"

definition concat_band :: "'r list \<Rightarrow> py_error + 'r list" where
  "concat_band rs =
     (if rs = [] then Inl (ValueError ''must supply at least one object to concatenate'')
      else Inr rs)"

definition assign_coords :: "string list \<Rightarrow> 'r list \<Rightarrow> py_error + 'r band_stack" where
  "assign_coords names rs =
     (if length names \<noteq> length rs then Inl (ValueError ''conflicting sizes for dimension band'')
      else Inr \<lparr>band_coord = names, rasters = rs\<rparr>)"

definition item_array ::
  "(string \<Rightarrow> py_error + 'r) \<Rightarrow> string list \<Rightarrow> string list \<Rightarrow> item
     \<Rightarrow> py_error + 'r band_stack" where
  "item_array open_rasterio bands names item =
     and_then (map_result (\<lambda>band. and_then (getitem (assets item) band)
                                      (\<lambda>a. open_rasterio (href a))) bands) (\<lambda>rs.
     and_then (concat_band rs) (\<lambda>stacked.
     assign_coords names stacked))"

definition concat_time :: "'r band_stack list \<Rightarrow> int list \<Rightarrow> py_error + 'r goes_array" where
  "concat_time arrays time =
     (case arrays of
        [] \<Rightarrow> Inl (ValueError ''must supply at least one object to concatenate'')
      | a # _ \<Rightarrow>
          Inr \<lparr>time_axis = time, band_axis = band_coord a, tiles = map rasters arrays\<rparr>)"

definition goes_data ::
  "(item \<Rightarrow> item) \<Rightarrow> (string \<Rightarrow> py_error + 'r) \<Rightarrow> item list \<Rightarrow> string list
     \<Rightarrow> py_error + 'r goes_array" where
  "goes_data sign open_rasterio items bands =
     (let signed = signed_items sign items in
      and_then (common_names items bands) (\<lambda>names.
      and_then (map_result (item_array open_rasterio bands names) signed) (\<lambda>arrays.
      concat_time arrays (time_coord signed))))"

text \<open>A scene acquired at time \<open>t\<close> with the blue and the red band, for the examples.\<close>

definition goes_scene :: "int \<Rightarrow> item" where
  "goes_scene t =
     \<lparr>datetime = t,
      assets =
        [(''C01_2km'',
          \<lparr>href = ''C01.tif'',
           extra_fields =
             [(''eo:bands'', [[(''name'', ''ABI Band 1''), (''common_name'', ''blue'')]])]\<rparr>),
         (''C02_2km'',
          \<lparr>href = ''C02.tif'',
           extra_fields =
             [(''eo:bands'', [[(''name'', ''ABI Band 2''), (''common_name'', ''red'')]])]\<rparr>)]\<rparr>"

section \<open>The streaming reduction of the execution engine\<close>

text \<open>
  Modelled from the spec: the task graph of a reduction (sections 3 and 4.3). The
  repository has no execution engine of its own; its notebooks hand every reduction
  (\<open>ndvi.mean\<close>, \<open>ndvi.max\<close>, \<open>ds.resample(time="MS").median\<close>) to a library. A node
  is a pure function over one chunk; the results of the chunk tasks are combined by a
  combine step, starting from an initial accumulator.
\<close>

record ('c, 'r) task_graph =
  chunks :: "'c list"
  chunk_task :: "'c \<Rightarrow> 'r"
  combine :: "'r \<Rightarrow> 'r \<Rightarrow> 'r"
  initial :: 'r

text \<open>
  Modelled from the spec: a scheduling order (section 5, no ordering is guaranteed
  between sibling chunk tasks). It is the order in which the chunk tasks of the graph
  complete: every chunk once, in any order.
\<close>

definition scheduling_order :: "('c, 'r) task_graph \<Rightarrow> 'c list \<Rightarrow> bool" where
  "scheduling_order g order \<longleftrightarrow> mset order = mset (chunks g)"

text \<open>
  Modelled from the spec: the execution of a reduction (section 4.3, intermediate
  chunk results are combined incrementally, not buffered wholesale). Each chunk result
  is combined into the accumulator as its task completes.
\<close>

definition execute :: "('c, 'r) task_graph \<Rightarrow> 'c list \<Rightarrow> 'r" where
  "execute g order = foldl (combine g) (initial g) (map (chunk_task g) order)"

text \<open>
  Modelled from the spec: the two reductions it names, maximum and mean. The mean is
  carried as the pair of the sum and the count of the values seen, the quotient being
  taken once at the end. A third combine step, which keeps the later result only, is
  neither commutative nor independent of the order.
\<close>

definition max_reduction :: "nat list list \<Rightarrow> (nat list, nat) task_graph" where
  "max_reduction cs = \<lparr>chunks = cs, chunk_task = foldl max 0, combine = max, initial = 0\<rparr>"

definition partial_mean :: "int list \<Rightarrow> int \<times> nat" where
  "partial_mean c = (sum_list c, length c)"

definition add_partial :: "int \<times> nat \<Rightarrow> int \<times> nat \<Rightarrow> int \<times> nat" where
  "add_partial p q = (fst p + fst q, snd p + snd q)"

definition mean_reduction :: "int list list \<Rightarrow> (int list, int \<times> nat) task_graph" where
  "mean_reduction cs =
     \<lparr>chunks = cs, chunk_task = partial_mean, combine = add_partial, initial = (0, 0)\<rparr>"

definition last_wins :: "nat list \<Rightarrow> (nat, nat) task_graph" where
  "last_wins cs = \<lparr>chunks = cs, chunk_task = id, combine = (\<lambda>a b. b), initial = 0\<rparr>"

section \<open>Resource requests of the option handler\<close>

lemma binary64_rounding_bounds:
  assumes "binary64_rounding rd" and "1 / 4 \<le> x" and "x \<le> 256"
  shows "x * (99 / 100) \<le> rd x" and "rd x \<le> x * (101 / 100)"
proof -
  have e: "\<bar>rd x - x\<bar> \<le> x / 2 ^ 53"
    using assms by (simp add: binary64_rounding_def)
  have u: "x / 2 ^ 53 \<le> x / 100"
    using assms(2) by (intro divide_left_mono) simp_all
  from e u have "rd x - x \<le> x / 100" and "x - rd x \<le> x / 100"
    by linarith+
  then show "x * (99 / 100) \<le> rd x" and "rd x \<le> x * (101 / 100)"
    by simp_all
qed

lemma cores_request_le_one:
  assumes rd: "binary64_rounding rd" and lo: "1 \<le> wc" and hi: "wc \<le> 16"
  shows "float_mul rd (rd (88 / 100)) (py_min (float_div rd wc 2) 1) \<le> 1"
proof -
  define a where "a = rd (88 / 100)"
  define q where "q = rd (wc / 2)"
  define p where "p = py_min q 1"
  have a: "88 / 100 * (99 / 100) \<le> a" "a \<le> 88 / 100 * (101 / 100)"
    unfolding a_def using binary64_rounding_bounds [OF rd, of "88 / 100"] by simp_all
  have q: "wc / 2 * (99 / 100) \<le> q"
    unfolding q_def using binary64_rounding_bounds(1) [OF rd, of "wc / 2"] lo hi by simp
  have p: "49 / 100 \<le> p" "p \<le> 1"
    using q lo by (simp_all add: p_def py_min_def)
  have a0: "0 \<le> a" "87 / 100 \<le> a" "a \<le> 89 / 100"
    using a by simp_all
  have lower: "1 / 4 \<le> a * p"
  proof -
    have "87 / 100 * (49 / 100) \<le> a * p"
      using a0 p by (intro mult_mono) simp_all
    then show ?thesis by simp
  qed
  have upper: "a * p \<le> 89 / 100"
  proof -
    have "a * p \<le> 89 / 100 * 1"
      using a0 p by (intro mult_mono) simp_all
    then show ?thesis by simp
  qed
  have "rd (a * p) \<le> a * p * (101 / 100)"
    using binary64_rounding_bounds(2) [OF rd lower] upper by simp
  also have "\<dots> \<le> 89 / 100 * (101 / 100)"
    using upper by simp
  also have "\<dots> \<le> 1"
    by simp
  finally show ?thesis
    by (simp add: float_mul_def float_div_def a_def q_def p_def)
qed

lemma memory_request_bound:
  assumes rd: "binary64_rounding rd" and lo: "8 \<le> m" and hi: "m \<le> 128"
  shows "0 \<le> float_mul rd (rd (9 / 10)) m"
    and "float_mul rd (rd (9 / 10)) m \<le> m * (92 / 100)"
proof -
  define a where "a = rd (9 / 10)"
  have a: "89 / 100 \<le> a" "a \<le> 91 / 100"
    unfolding a_def using binary64_rounding_bounds [OF rd, of "9 / 10"] by simp_all
  have lower: "1 / 4 \<le> a * m"
  proof -
    have "89 / 100 * 8 \<le> a * m"
      using a lo by (intro mult_mono) simp_all
    then show ?thesis by simp
  qed
  have upper: "a * m \<le> 91 / 100 * m"
    using a lo by (intro mult_right_mono) simp_all
  then have upper': "a * m \<le> 256"
    using hi by simp
  have r: "a * m * (99 / 100) \<le> rd (a * m)" "rd (a * m) \<le> a * m * (101 / 100)"
    using binary64_rounding_bounds [OF rd lower upper'] by simp_all
  from r(1) lower show "0 \<le> float_mul rd (rd (9 / 10)) m"
    by (simp add: float_mul_def a_def)
  have "rd (a * m) \<le> 91 / 100 * m * (101 / 100)"
    using r(2) upper by linarith
  also have "\<dots> \<le> m * (92 / 100)"
    using lo by simp
  finally show "float_mul rd (rd (9 / 10)) m \<le> m * (92 / 100)"
    by (simp add: float_mul_def a_def)
qed

lemma round_half_even_bounds:
  "x - 1 / 2 \<le> of_int (round_half_even x)" "of_int (round_half_even x) \<le> x + 1 / 2"
  by (simp_all add: round_half_even_def Let_def) linarith+

lemma round_half_even_less:
  assumes "x + 1 < y"
  shows "round_half_even x < round_half_even y"
proof -
  have "(of_int (round_half_even x) :: real) < of_int (round_half_even y)"
    using round_half_even_bounds(2) [of x] round_half_even_bounds(1) [of y] assms by linarith
  then show ?thesis by simp
qed

lemma micros_less:
  assumes "0 \<le> x" and "x + 1 / 10 ^ 6 < y"
  shows "micros x < micros y"
proof -
  have "x * 10 ^ 6 + 1 < y * 10 ^ 6"
    using assms(2) by (simp add: field_simps)
  then have lt: "round_half_even (x * 10 ^ 6) < round_half_even (y * 10 ^ 6)"
    by (rule round_half_even_less)
  have "0 \<le> round_half_even (x * 10 ^ 6)"
  proof -
    have "(0::real) - 1 / 2 \<le> of_int (round_half_even (x * 10 ^ 6))"
      using round_half_even_bounds(1) [of "x * 10 ^ 6"] assms(1) by simp
    then have "(-1 :: real) < of_int (round_half_even (x * 10 ^ 6))"
      by linarith
    then have "(-1 :: int) < round_half_even (x * 10 ^ 6)"
      by linarith
    then show ?thesis by simp
  qed
  with lt assms show ?thesis
    by (simp add: micros_def abs_of_nonneg)
qed

text \<open>The format on a tie, on a negative amount and on an amount above one hundred.\<close>

lemma percent_f_examples:
  "percent_f (1 / 128) = ''0.007812''"
  "percent_f (- (1234567 / 10000000)) = ''-0.123457''"
  "percent_f (1152 / 10) = ''115.200000''"
  by (simp_all add: percent_f_def micros_def round_half_even_def frac6_def show_nat.simps
      digit_char_def Let_def)

text \<open>
  Claim C9. For every \<open>worker_cores\<close> in \<open>[1, 16]\<close> and \<open>worker_memory\<close> in \<open>[8, 128]\<close>
  that the handler accepts, the returned request never exceeds the returned limit: the
  core request \<open>0.88 * min(worker_cores / 2, 1)\<close> is at most \<open>worker_cores_limit\<close>, which
  is \<open>worker_cores\<close>, and the memory request \<open>0.9 * worker_memory\<close> is strictly less than
  \<open>worker_memory_limit\<close>, which is \<open>worker_memory\<close>. The memory amounts are returned as
  strings in the \<open>%fG\<close> format; the strict order holds of the amounts before formatting
  and of the amounts as printed. It holds for every rounding function with the accuracy
  of binary64.
\<close>

theorem option_handler_request_within_limit:
  assumes "binary64_rounding rd"
    and "1 \<le> worker_cores opts" and "worker_cores opts \<le> 16"
    and "8 \<le> worker_memory opts" and "worker_memory opts \<le> 128"
    and "option_handler rd opts = Inr cfg"
  shows "map_of cfg ''worker_cores'' =
           Some (PyFloat (float_mul rd (rd (88 / 100))
                   (py_min (float_div rd (worker_cores opts) 2) 1)))
       \<and> map_of cfg ''worker_cores_limit'' = Some (PyFloat (worker_cores opts))
       \<and> float_mul rd (rd (88 / 100)) (py_min (float_div rd (worker_cores opts) 2) 1)
           \<le> worker_cores opts
       \<and> map_of cfg ''worker_memory'' =
           Some (PyStr (percent_f (float_mul rd (rd (9 / 10)) (worker_memory opts)) @ ''G''))
       \<and> map_of cfg ''worker_memory_limit'' =
           Some (PyStr (percent_f (worker_memory opts) @ ''G''))
       \<and> float_mul rd (rd (9 / 10)) (worker_memory opts) < worker_memory opts
       \<and> micros (float_mul rd (rd (9 / 10)) (worker_memory opts)) < micros (worker_memory opts)"
proof -
  let ?c = "float_mul rd (rd (88 / 100)) (py_min (float_div rd (worker_cores opts) 2) 1)"
  let ?r = "float_mul rd (rd (9 / 10)) (worker_memory opts)"
  have cfg: "cfg =
        [(''worker_cores'', PyFloat ?c),
         (''worker_cores_limit'', PyFloat (worker_cores opts)),
         (''worker_memory'', PyStr (percent_f ?r @ ''G'')),
         (''worker_memory_limit'', PyStr (percent_f (worker_memory opts) @ ''G'')),
         (''image'', PyStr (image_str opts)),
         (''environment'', PyMapping (environment opts))]"
    using assms(6) by (simp add: option_handler_def split: if_splits)
  have c: "?c \<le> worker_cores opts"
    using cores_request_le_one [OF assms(1-3)] assms(2) by linarith
  have r0: "0 \<le> ?r" and r1: "?r \<le> worker_memory opts * (92 / 100)"
    using memory_request_bound [OF assms(1,4,5)] by simp_all
  have r: "?r < worker_memory opts"
    using r1 assms(4) by simp
  have "?r + 1 / 10 ^ 6 < worker_memory opts"
    using r1 assms(4) by simp
  then have m: "micros ?r < micros (worker_memory opts)"
    using r0 by (intro micros_less) simp_all
  have l1: "map_of cfg ''worker_cores'' = Some (PyFloat ?c)"
    by (simp add: cfg)
  have l2: "map_of cfg ''worker_cores_limit'' = Some (PyFloat (worker_cores opts))"
    by (simp add: cfg)
  have l3: "map_of cfg ''worker_memory'' = Some (PyStr (percent_f ?r @ ''G''))"
    by (simp add: cfg)
  have l4: "map_of cfg ''worker_memory_limit'' =
      Some (PyStr (percent_f (worker_memory opts) @ ''G''))"
    by (simp add: cfg)
  from l1 l2 c l3 l4 r m show ?thesis by blast
qed

text \<open>
  The default options under exact arithmetic: 0.44 of a core against a limit of one,
  7.2 GiB against a limit of 8.
\<close>

theorem option_handler_request_within_limit_witness:
  "binary64_rounding id
   \<and> 1 \<le> worker_cores default_options \<and> worker_cores default_options \<le> 16
   \<and> 8 \<le> worker_memory default_options \<and> worker_memory default_options \<le> 128
   \<and> option_handler id default_options =
       Inr [(''worker_cores'', PyFloat (44 / 100)),
            (''worker_cores_limit'', PyFloat 1),
            (''worker_memory'', PyStr ''7.200000G''),
            (''worker_memory_limit'', PyStr ''8.000000G''),
            (''image'', PyStr ''pangeo/pangeo-notebook:latest''),
            (''environment'', PyMapping [])]
   \<and> float_mul id (id (88 / 100)) (py_min (float_div id (worker_cores default_options) 2) 1)
       \<le> worker_cores default_options
   \<and> float_mul id (id (9 / 10)) (worker_memory default_options) < worker_memory default_options
   \<and> micros (float_mul id (id (9 / 10)) (worker_memory default_options))
       < micros (worker_memory default_options)"
proof -
  have rd: "binary64_rounding id"
    by (simp add: binary64_rounding_def)
  have c: "1 \<le> worker_cores default_options" "worker_cores default_options \<le> 16"
    by (simp_all add: default_options_def)
  have m: "8 \<le> worker_memory default_options" "worker_memory default_options \<le> 128"
    by (simp_all add: default_options_def)
  have run: "option_handler id default_options =
       Inr [(''worker_cores'', PyFloat (44 / 100)),
            (''worker_cores_limit'', PyFloat 1),
            (''worker_memory'', PyStr ''7.200000G''),
            (''worker_memory_limit'', PyStr ''8.000000G''),
            (''image'', PyStr ''pangeo/pangeo-notebook:latest''),
            (''environment'', PyMapping [])]"
    by (simp add: option_handler_def default_options_def float_mul_def float_div_def py_min_def
        percent_f_def micros_def round_half_even_def frac6_def show_nat.simps digit_char_def)
  from option_handler_request_within_limit [OF rd c m run] rd c m run show ?thesis
    by blast
qed

section \<open>When the option handler raises\<close>

text \<open>
  Claim C10. The option handler raises a \<open>ValueError\<close> if and only if the image string
  contains no \<open>":"\<close>, that is, names an image without a tag; for every image string
  that contains \<open>":"\<close> it does not raise and returns the options mapping: the two
  resource requests, the two limits, and the image and the environment as given.
\<close>

theorem option_handler_raises_iff_untagged:
  "(option_handler rd opts =
      Inl (ValueError ''When specifying an image you must also provide a tag'')
    \<longleftrightarrow> CHR '':'' \<notin> set (image_str opts))
   \<and> ((\<exists>cfg. option_handler rd opts = Inr cfg) \<longleftrightarrow> CHR '':'' \<in> set (image_str opts))
   \<and> (CHR '':'' \<in> set (image_str opts) \<longrightarrow>
        option_handler rd opts =
          Inr [(''worker_cores'',
                  PyFloat (float_mul rd (rd (88 / 100))
                    (py_min (float_div rd (worker_cores opts) 2) 1))),
               (''worker_cores_limit'', PyFloat (worker_cores opts)),
               (''worker_memory'',
                  PyStr (percent_f (float_mul rd (rd (9 / 10)) (worker_memory opts)) @ ''G'')),
               (''worker_memory_limit'', PyStr (percent_f (worker_memory opts) @ ''G'')),
               (''image'', PyStr (image_str opts)),
               (''environment'', PyMapping (environment opts))])"
  by (simp add: option_handler_def)

text \<open>The default image carries a tag; the same image without its tag is refused.\<close>

theorem option_handler_raises_iff_untagged_witness:
  "option_handler id (default_options\<lparr>image_str := ''pangeo/pangeo-notebook''\<rparr>) =
      Inl (ValueError ''When specifying an image you must also provide a tag'')
   \<and> CHR '':'' \<in> set (image_str default_options)
   \<and> option_handler id default_options =
       Inr [(''worker_cores'', PyFloat (44 / 100)),
            (''worker_cores_limit'', PyFloat 1),
            (''worker_memory'', PyStr ''7.200000G''),
            (''worker_memory_limit'', PyStr ''8.000000G''),
            (''image'', PyStr ''pangeo/pangeo-notebook:latest''),
            (''environment'', PyMapping [])]"
proof -
  have t: "CHR '':'' \<in> set (image_str default_options)"
    by (simp add: default_options_def)
  have u: "CHR '':'' \<notin>
      set (image_str (default_options\<lparr>image_str := ''pangeo/pangeo-notebook''\<rparr>))"
    by simp
  from option_handler_raises_iff_untagged
      [of id "default_options\<lparr>image_str := ''pangeo/pangeo-notebook''\<rparr>"] u
  have 1: "option_handler id (default_options\<lparr>image_str := ''pangeo/pangeo-notebook''\<rparr>) =
      Inl (ValueError ''When specifying an image you must also provide a tag'')"
    by blast
  from option_handler_raises_iff_untagged [of id default_options] t
  have 2: "option_handler id default_options =
       Inr [(''worker_cores'', PyFloat (44 / 100)),
            (''worker_cores_limit'', PyFloat 1),
            (''worker_memory'', PyStr ''7.200000G''),
            (''worker_memory_limit'', PyStr ''8.000000G''),
            (''image'', PyStr ''pangeo/pangeo-notebook:latest''),
            (''environment'', PyMapping [])]"
    by (simp add: default_options_def float_mul_def float_div_def py_min_def
        percent_f_def micros_def round_half_even_def frac6_def show_nat.simps digit_char_def)
  from 1 t 2 show ?thesis by blast
qed

section \<open>The axes of the GOES time stack\<close>

lemma and_then_Inr_iff:
  "and_then r f = Inr y \<longleftrightarrow> (\<exists>x. r = Inr x \<and> f x = Inr y)"
  by (cases r) (simp_all add: and_then_def)

lemma map_result_Inr:
  "map_result f xs = Inr ys \<Longrightarrow> list_all2 (\<lambda>x y. f x = Inr y) xs ys"
proof (induction xs arbitrary: ys)
  case Nil
  then show ?case by simp
next
  case (Cons x xs)
  from Cons.prems obtain y ys' where "f x = Inr y" "map_result f xs = Inr ys'" "ys = y # ys'"
    by (auto simp: and_then_Inr_iff)
  with Cons.IH show ?case by simp
qed

lemma item_array_band_coord:
  "item_array open_rasterio bands names it = Inr a \<Longrightarrow> band_coord a = names"
  by (auto simp: item_array_def and_then_Inr_iff assign_coords_def split: if_splits)

lemma goes_data_Inr:
  assumes "goes_data sign open_rasterio items bands = Inr va"
  shows "time_axis va = map datetime (sort_key datetime (map sign items))"
    and "common_names items bands = Inr (band_axis va)"
proof -
  let ?signed = "signed_items sign items"
  from assms obtain names arrays where
    names: "common_names items bands = Inr names"
    and arrays: "map_result (item_array open_rasterio bands names) ?signed = Inr arrays"
    and va: "concat_time arrays (time_coord ?signed) = Inr va"
    by (auto simp: goes_data_def Let_def and_then_Inr_iff)
  from va obtain a rest where ar: "arrays = a # rest"
    and va': "va = \<lparr>time_axis = time_coord ?signed, band_axis = band_coord a,
                   tiles = map rasters arrays\<rparr>"
    by (cases arrays) (auto simp: concat_time_def)
  from va' show "time_axis va = map datetime (sort_key datetime (map sign items))"
    by (simp add: time_coord_def signed_items_def py_sorted_def)
  from map_result_Inr [OF arrays] ar obtain s
    where "item_array open_rasterio bands names s = Inr a"
    by (auto simp: list_all2_Cons2)
  then have "band_coord a = names"
    by (rule item_array_band_coord)
  with names va' show "common_names items bands = Inr (band_axis va)"
    by simp
qed

text \<open>
  Claim C6, as the code has it. Whenever the build returns an array, its time axis is
  the list of the acquisition timestamps of the signed items in non-decreasing order,
  one entry for each item: a timestamp that several items share is repeated, not
  merged. The time axis is strictly increasing exactly when the timestamps are
  pairwise distinct, and it is then the sorted set of the timestamps. The band axis has
  one label for each requested band identifier, in the order requested: the common name
  that the first item of the search result records for that band.
\<close>

theorem goes_time_axis_sorted_with_duplicates:
  assumes "goes_data sign open_rasterio items bands = Inr va"
  shows "sorted (time_axis va)
       \<and> mset (time_axis va) = mset (map (\<lambda>i. datetime (sign i)) items)
       \<and> (sorted_wrt (<) (time_axis va) \<longleftrightarrow> distinct (map (\<lambda>i. datetime (sign i)) items))
       \<and> (distinct (map (\<lambda>i. datetime (sign i)) items) \<longrightarrow>
            time_axis va = sorted_list_of_set (set (map (\<lambda>i. datetime (sign i)) items)))
       \<and> list_all2 (\<lambda>band name. common_name items band = Inr name) bands (band_axis va)"
proof -
  let ?ts = "map (\<lambda>i. datetime (sign i)) items"
  have t: "time_axis va = map datetime (sort_key datetime (map sign items))"
    using goes_data_Inr(1) [OF assms] .
  have s: "sorted (time_axis va)"
    unfolding t by (rule sorted_sort_key)
  have m: "mset (time_axis va) = mset ?ts"
    unfolding t by (simp add: multiset.map_comp comp_def)
  have d: "distinct (time_axis va) \<longleftrightarrow> distinct ?ts"
    using m by (metis distinct_count_atmost_1 set_mset_mset)
  have strict: "sorted_wrt (<) (time_axis va) \<longleftrightarrow> distinct ?ts"
    using s d by (simp add: strict_sorted_iff)
  have dedup: "distinct ?ts \<longrightarrow> time_axis va = sorted_list_of_set (set ?ts)"
  proof
    assume "distinct ?ts"
    then have "distinct (time_axis va)"
      using d by simp
    moreover have "set (time_axis va) = set ?ts"
      using m by (metis set_mset_mset)
    ultimately show "time_axis va = sorted_list_of_set (set ?ts)"
      using s by (metis sorted_list_of_set.idem_if_sorted_distinct)
  qed
  have b: "list_all2 (\<lambda>band name. common_name items band = Inr name) bands (band_axis va)"
    using goes_data_Inr(2) [OF assms] by (simp add: common_names_def map_result_Inr)
  from s m strict dedup b show ?thesis by blast
qed

text \<open>Two scenes with distinct timestamps, found in descending order, two bands.\<close>

theorem goes_time_axis_sorted_with_duplicates_witness:
  "goes_data id Inr [goes_scene 7, goes_scene 5] [''C02_2km'', ''C01_2km''] =
     Inr \<lparr>time_axis = [5, 7], band_axis = [''red'', ''blue''],
          tiles = [[''C02.tif'', ''C01.tif''], [''C02.tif'', ''C01.tif'']]\<rparr>
   \<and> sorted [5, 7 :: int]
   \<and> distinct (map datetime [goes_scene 7, goes_scene 5])
   \<and> sorted_wrt (<) [5, 7 :: int]
   \<and> [5, 7] = sorted_list_of_set (set (map datetime [goes_scene 7, goes_scene 5]))
   \<and> common_name [goes_scene 7, goes_scene 5] ''C02_2km'' = Inr ''red''
   \<and> common_name [goes_scene 7, goes_scene 5] ''C01_2km'' = Inr ''blue''"
proof -
  have run: "goes_data id Inr [goes_scene 7, goes_scene 5] [''C02_2km'', ''C01_2km''] =
     Inr \<lparr>time_axis = [5, 7], band_axis = [''red'', ''blue''],
          tiles = [[''C02.tif'', ''C01.tif''], [''C02.tif'', ''C01.tif'']]\<rparr>"
    by (simp add: goes_data_def signed_items_def py_sorted_def common_names_def common_name_def
        time_coord_def item_array_def concat_band_def assign_coords_def concat_time_def
        and_then_def getitem_def first_def goes_scene_def)
  have d: "distinct (map (\<lambda>i. datetime (id i)) [goes_scene 7, goes_scene 5])"
    by (simp add: goes_scene_def)
  from goes_time_axis_sorted_with_duplicates [OF run] d run show ?thesis
    by simp
qed

text \<open>
  Claim C6 as the specification words it fails at two scenes that share a timestamp
  (two sectors imaged at the same instant): the time axis holds the timestamp twice, so
  it is neither the deduplicated set of the timestamps nor strictly increasing; and the
  band axis is labelled \<open>blue\<close>, not with the requested identifier.
\<close>

theorem goes_time_axis_not_deduplicated:
  "goes_data id Inr [goes_scene 5, goes_scene 5] [''C01_2km''] =
     Inr \<lparr>time_axis = [5, 5], band_axis = [''blue''], tiles = [[''C01.tif''], [''C01.tif'']]\<rparr>
   \<and> [5, 5] \<noteq> sorted_list_of_set (set (map datetime [goes_scene 5, goes_scene 5]))
   \<and> \<not> sorted_wrt (<) [5, 5 :: int]
   \<and> set [''blue''] \<noteq> set [''C01_2km'']"
  by (simp add: goes_data_def signed_items_def py_sorted_def common_names_def common_name_def
      time_coord_def item_array_def concat_band_def assign_coords_def concat_time_def
      and_then_def getitem_def first_def goes_scene_def)

section \<open>Order independence of the streaming reduction\<close>

lemma foldl_combine_permute:
  assumes assoc: "\<forall>a b c. f (f a b) c = f a (f b c)"
    and comm: "\<forall>a b. f a b = f b a"
    and perm: "mset xs = mset ys"
  shows "foldl f e xs = foldl f e ys"
proof -
  have swap: "(\<lambda>a. f a x) \<circ> (\<lambda>a. f a y) = (\<lambda>a. f a y) \<circ> (\<lambda>a. f a x)" for x y
  proof
    fix a
    have "f (f a y) x = f a (f y x)"
      using assoc by simp
    also have "\<dots> = f a (f x y)"
      using comm by simp
    also have "\<dots> = f (f a x) y"
      using assoc by simp
    finally show "((\<lambda>a. f a x) \<circ> (\<lambda>a. f a y)) a = ((\<lambda>a. f a y) \<circ> (\<lambda>a. f a x)) a"
      by simp
  qed
  have "fold (\<lambda>x a. f a x) xs = fold (\<lambda>x a. f a x) ys"
    using swap perm by (intro fold_multiset_equiv) auto
  then show ?thesis
    by (simp add: foldl_conv_fold)
qed

text \<open>
  Without commutativity the order shows in the result: keeping the later chunk result
  gives 2 for one order of the chunks 1 and 2 and 1 for the other.
\<close>

lemma last_wins_depends_on_order:
  "scheduling_order (last_wins [1, 2]) [1, 2]"
  "scheduling_order (last_wins [1, 2]) [2, 1]"
  "execute (last_wins [1, 2]) [1, 2] = 2"
  "execute (last_wins [1, 2]) [2, 1] = 1"
  by (simp_all add: scheduling_order_def execute_def last_wins_def)

text \<open>
  Claim C2. For every task graph whose reduction combines the chunk results with an
  associative and commutative operation, the materialized result is the same for every
  scheduling order of the chunk tasks: permuting the order in which the chunks are
  combined does not change the result. The hypothesis is on the combine step as it
  computes: a sum of floating-point numbers, which is not associative, is outside it,
  and the mean is covered as the exact pair of sum and count.
\<close>

theorem execute_order_independent:
  assumes "\<forall>a b c. combine g (combine g a b) c = combine g a (combine g b c)"
    and "\<forall>a b. combine g a b = combine g b a"
    and "scheduling_order g order1" and "scheduling_order g order2"
  shows "execute g order1 = execute g order2"
proof -
  have "mset (map (chunk_task g) order1) = mset (map (chunk_task g) order2)"
    using assms(3,4) by (simp add: scheduling_order_def)
  then show ?thesis
    unfolding execute_def by (rule foldl_combine_permute [OF assms(1,2)])
qed

text \<open>Three chunks under two orders each, reduced by maximum and by mean.\<close>

theorem execute_order_independent_witness:
  "scheduling_order (max_reduction [[3, 1], [4], [1, 5]]) [[3, 1], [4], [1, 5]]
   \<and> scheduling_order (max_reduction [[3, 1], [4], [1, 5]]) [[1, 5], [3, 1], [4]]
   \<and> execute (max_reduction [[3, 1], [4], [1, 5]]) [[3, 1], [4], [1, 5]] = 5
   \<and> execute (max_reduction [[3, 1], [4], [1, 5]]) [[1, 5], [3, 1], [4]] = 5
   \<and> scheduling_order (mean_reduction [[3, 1], [4], [1, 5]]) [[3, 1], [4], [1, 5]]
   \<and> scheduling_order (mean_reduction [[3, 1], [4], [1, 5]]) [[4], [1, 5], [3, 1]]
   \<and> execute (mean_reduction [[3, 1], [4], [1, 5]]) [[3, 1], [4], [1, 5]] = (14, 5)
   \<and> execute (mean_reduction [[3, 1], [4], [1, 5]]) [[4], [1, 5], [3, 1]] = (14, 5)"
proof -
  let ?g = "max_reduction [[3, 1], [4], [1, 5]]"
  let ?m = "mean_reduction [[3, 1], [4], [1, 5]]"
  have a: "\<forall>a b c. combine ?g (combine ?g a b) c = combine ?g a (combine ?g b c)"
    by (simp add: max_reduction_def max.assoc)
  have c: "\<forall>a b. combine ?g a b = combine ?g b a"
    by (simp add: max_reduction_def max.commute)
  have s1: "scheduling_order ?g [[3, 1], [4], [1, 5]]"
    by (simp add: scheduling_order_def max_reduction_def)
  have s2: "scheduling_order ?g [[1, 5], [3, 1], [4]]"
    by (simp add: scheduling_order_def max_reduction_def)
  have r: "execute ?g [[3, 1], [4], [1, 5]] = 5"
    by (simp add: execute_def max_reduction_def)
  have a': "\<forall>a b c. combine ?m (combine ?m a b) c = combine ?m a (combine ?m b c)"
    by (simp add: mean_reduction_def add_partial_def)
  have c': "\<forall>a b. combine ?m a b = combine ?m b a"
    by (simp add: mean_reduction_def add_partial_def)
  have t1: "scheduling_order ?m [[3, 1], [4], [1, 5]]"
    by (simp add: scheduling_order_def mean_reduction_def)
  have t2: "scheduling_order ?m [[4], [1, 5], [3, 1]]"
    by (simp add: scheduling_order_def mean_reduction_def)
  have r': "execute ?m [[3, 1], [4], [1, 5]] = (14, 5)"
    by (simp add: execute_def mean_reduction_def add_partial_def partial_mean_def)
  from execute_order_independent [OF a c s1 s2] execute_order_independent [OF a' c' t1 t2]
    s1 s2 r t1 t2 r'
  show ?thesis by simp
qed


end
